theory Spec2Isabelle
  imports Main "HOL-Library.Code_Target_Nat"
begin

section \<open>JavaScript helpers used by the chain simulator\<close>

text \<open>
  The simulator builds its identifiers with \<^verbatim>\<open>Number.prototype.toString(radix)\<close>,
  \<^verbatim>\<open>Buffer.from(s).toString('hex')\<close> and \<^verbatim>\<open>String.prototype.padStart\<close>.
  Counters are JavaScript numbers used as non-negative integers far below \<open>2^53\<close>;
  they are modelled as \<open>nat\<close>. \<open>toStringRadix\<close> is only used with the radixes 10
  and 16.
\<close>

definition digit_char :: "nat \<Rightarrow> char" where
  "digit_char d = (if d < 10 then char_of (48 + d) else char_of (87 + d))"

function toStringRadix :: "nat \<Rightarrow> nat \<Rightarrow> string" where
  "toStringRadix b n =
     (if b < 2 \<or> n < b then [digit_char n]
      else toStringRadix b (n div b) @ [digit_char (n mod b)])"
  by pat_completeness auto
termination
  by (relation "measure snd") auto

declare toStringRadix.simps [simp del]

definition Buffer_hex :: "string \<Rightarrow> string" where
  "Buffer_hex s =
     concat (map (\<lambda>c. [digit_char ((of_char c :: nat) div 16),
                         digit_char ((of_char c :: nat) mod 16)]) s)"

definition padStart :: "nat \<Rightarrow> char \<Rightarrow> string \<Rightarrow> string" where
  "padStart n c s = replicate (n - length s) c @ s"

text \<open>
  \<^verbatim>\<open>`0x${Buffer.from(x.toString()).toString('hex').padStart(64, '0')}`\<close>: the
  expression behind every synthetic transaction hash and every block hash.
\<close>

definition mock_hash :: "nat \<Rightarrow> string" where
  "mock_hash x = ''0x'' @ padStart 64 (CHR ''0'') (Buffer_hex (toStringRadix 10 x))"

text \<open>
  \<^verbatim>\<open>parseInt(s, 16)\<close>: leading white space, an optional sign, an optional
  \<^verbatim>\<open>0x\<close> or \<^verbatim>\<open>0X\<close>, then the longest run of hexadecimal digits; \<open>None\<close> is
  \<^verbatim>\<open>NaN\<close>. (Values beyond \<open>2^53\<close>, which JavaScript rounds, do not occur as
  chain ids.)
\<close>

definition is_ws :: "char \<Rightarrow> bool" where
  "is_ws c = ((of_char c :: nat) \<in> {9, 10, 11, 12, 13, 32})"

definition hex_val :: "char \<Rightarrow> nat option" where
  "hex_val c =
     (let n = (of_char c :: nat) in
      if 48 \<le> n \<and> n \<le> 57 then Some (n - 48)
      else if 97 \<le> n \<and> n \<le> 102 then Some (n - 87)
      else if 65 \<le> n \<and> n \<le> 70 then Some (n - 55)
      else None)"

definition parseInt16 :: "string \<Rightarrow> int option" where
  "parseInt16 s =
     (let s1 = dropWhile is_ws s;
          neg = (take 1 s1 = ''-'');
          s2 = (if take 1 s1 = ''-'' \<or> take 1 s1 = ''+'' then drop 1 s1 else s1);
          s3 = (if take 2 s2 = ''0x'' \<or> take 2 s2 = ''0X'' then drop 2 s2 else s2);
          z = takeWhile (\<lambda>c. hex_val c \<noteq> None) s3;
          v = foldl (\<lambda>a c. 16 * a + the (hex_val c)) 0 z
      in if z = [] then None else Some (if neg then - int v else int v))"

text \<open>\<^verbatim>\<open>xs[0]\<close> of a JavaScript array: \<open>None\<close> is \<^verbatim>\<open>undefined\<close>.\<close>

definition list_head :: "'a list \<Rightarrow> 'a option" where
  "list_head xs = (case xs of [] \<Rightarrow> None | x # _ \<Rightarrow> Some x)"

text \<open>A JavaScript \<^verbatim>\<open>Map\<close>: keys in insertion order, \<^verbatim>\<open>set\<close> on a present key
  replaces the value in place.\<close>

fun map_set :: "'k \<Rightarrow> 'v \<Rightarrow> ('k \<times> 'v) list \<Rightarrow> ('k \<times> 'v) list" where
  "map_set k v [] = [(k, v)]"
| "map_set k v ((k', v') # xs) =
     (if k = k' then (k, v) # xs else (k', v') # map_set k v xs)"

definition map_get :: "('k \<times> 'v) list \<Rightarrow> 'k \<Rightarrow> 'v option" where
  "map_get m k = map_of m k"

definition map_keys :: "('k \<times> 'v) list \<Rightarrow> 'k list" where
  "map_keys m = map fst m"


section \<open>MockProvider (the chain simulator)\<close>

record mock_tx =
  tx_hash :: string
  tx_from :: string
  tx_to :: string
  tx_value :: string
  tx_gasLimit :: string
  tx_gasPrice :: string
  tx_nonce :: string
  tx_data :: string
  tx_chainId :: nat
  tx_blockNumber :: nat
  tx_timestamp :: nat
  tx_status :: nat

record block =
  blk_number :: nat
  blk_hash :: string
  blk_timestamp :: nat
  blk_transactions :: "string list"

text \<open>
  The fields of the class: \<^verbatim>\<open>blockNumber\<close>, the \<^verbatim>\<open>transactions\<close> map,
  \<^verbatim>\<open>config.chainId\<close> and whether the \<^verbatim>\<open>interval\<close> handle is set.
\<close>

record MockProvider =
  blockNumber :: nat
  transactions :: "(string \<times> mock_tx) list"
  config_chainId :: nat
  interval :: bool

definition new_MockProvider :: "nat \<Rightarrow> MockProvider" where
  "new_MockProvider cid =
     \<lparr>blockNumber = 0, transactions = [], config_chainId = cid, interval = False\<rparr>"

text \<open>
  \<^verbatim>\<open>getBlock(blockNumberOrHash)\<close>. The source parses its argument into a local
  \<^verbatim>\<open>number\<close> and never reads it again: the returned object is built from
  \<^verbatim>\<open>this.blockNumber\<close>, the clock and all keys of the transactions map. \<open>now\<close>
  is the value of \<^verbatim>\<open>Date.now()\<close> at the call, \<open>n\<close> the argument, a number or a
  string in the source and of any type here.
\<close>

definition getBlock :: "nat \<Rightarrow> 'a \<Rightarrow> MockProvider \<Rightarrow> block" where
  "getBlock now n s =
     \<lparr>blk_number = blockNumber s,
      blk_hash = mock_hash (blockNumber s),
      blk_timestamp = now div 1000,
      blk_transactions = map_keys (transactions s)\<rparr>"

definition getTransaction :: "string \<Rightarrow> MockProvider \<Rightarrow> mock_tx option" where
  "getTransaction h s = map_get (transactions s) h"

text \<open>\<^verbatim>\<open>getTransactionReceipt(hash)\<close>: the stored transaction with three fields
  set, or \<^verbatim>\<open>null\<close>.\<close>

record mock_receipt = mock_tx +
  rc_gasUsed :: string
  rc_effectiveGasPrice :: string

definition getTransactionReceipt :: "string \<Rightarrow> MockProvider \<Rightarrow> mock_receipt option" where
  "getTransactionReceipt h s =
     (case getTransaction h s of
        None \<Rightarrow> None
      | Some tx \<Rightarrow>
          Some (mock_tx.extend (tx\<lparr>tx_status := 1\<rparr>)
                  (mock_receipt.fields ''21000'' ''1000000000'')))"

text \<open>
  \<^verbatim>\<open>generateMockTransaction()\<close> reads the clock twice: \<open>fst clk\<close> is the
  \<^verbatim>\<open>Date.now()\<close> that becomes the hash, \<open>snd clk\<close> the one that becomes the
  timestamp. It returns the transaction and the provider with the map updated.
\<close>

definition generateMockTransaction ::
    "nat \<times> nat \<Rightarrow> MockProvider \<Rightarrow> mock_tx \<times> MockProvider" where
  "generateMockTransaction clk s =
     (let hash = mock_hash (fst clk);
          tx = \<lparr>tx_hash = hash,
                tx_from = ''0x'' @ replicate 40 (CHR ''1''),
                tx_to = ''0x'' @ replicate 40 (CHR ''2''),
                tx_value = ''0x'' @ toStringRadix 16 1000000000000000000,
                tx_gasLimit = ''0x'' @ toStringRadix 16 21000,
                tx_gasPrice = ''0x'' @ toStringRadix 16 1000000000,
                tx_nonce = ''0x'' @ toStringRadix 16 (length (transactions s)),
                tx_data = ''0x'',
                tx_chainId = config_chainId s,
                tx_blockNumber = blockNumber s,
                tx_timestamp = snd clk div 1000,
                tx_status = 1\<rparr>
      in (tx, s\<lparr>transactions := map_set hash tx (transactions s)\<rparr>))"

text \<open>
  The callback of \<^verbatim>\<open>startBlockProduction\<close>'s timer. \<open>k\<close> is
  \<^verbatim>\<open>Math.floor(Math.random() * 3)\<close>, so \<^verbatim>\<open>txCount\<close> is \<open>k + 1\<close>; \<open>clock i\<close>
  are the clock readings of the \<open>i\<close>-th loop iteration. The result carries the
  argument of \<^verbatim>\<open>emit('block', this.blockNumber)\<close>.
\<close>

definition tick :: "nat \<Rightarrow> (nat \<Rightarrow> nat \<times> nat) \<Rightarrow> MockProvider \<Rightarrow> MockProvider \<times> nat" where
  "tick k clock s =
     (let s1 = s\<lparr>blockNumber := blockNumber s + 1\<rparr>;
          txCount = k + 1;
          s2 = fold (\<lambda>i st. snd (generateMockTransaction (clock i) st)) [0..<txCount] s1
      in (s2, blockNumber s2))"

definition startBlockProduction :: "MockProvider \<Rightarrow> MockProvider" where
  "startBlockProduction s = s\<lparr>interval := True\<rparr>"

definition stopBlockProduction :: "MockProvider \<Rightarrow> MockProvider" where
  "stopBlockProduction s = (if interval s then s\<lparr>interval := False\<rparr> else s)"

text \<open>A run of the timer: the callback fires once per element, in order; the second
  component lists the emitted block numbers, oldest first.\<close>

fun produce :: "(nat \<times> (nat \<Rightarrow> nat \<times> nat)) list \<Rightarrow> MockProvider \<Rightarrow> MockProvider \<times> nat list" where
  "produce [] s = (s, [])"
| "produce ((k, clock) # ts) s =
     (let (s1, n) = tick k clock s; (s2, ns) = produce ts s1 in (s2, n # ns))"


section \<open>MockWebSocketProvider\<close>

datatype error =
    MaxConnectionAttemptsReached
  | ProviderNotConnected
  | MethodNotImplemented string
  | TypeError
  | TransactionFailed
  | ExternalFailure
  | ConnectionVerificationFailed nat bool bool
  | RelayNotInitialized
  | GasPriceExceedsMaximum
  | TransactionFailedOnChain
  | ReferenceError string

text \<open>
  \<^verbatim>\<open>networkState.chainId\<close> is the only part of the network state that is read.
  The constructor sets \<^verbatim>\<open>connectionAttempts = 0\<close> and \<^verbatim>\<open>maxRetries = 3\<close>.
  The event listeners are not part of the state: where an event matters, the handler
  it runs is applied by the function that models the emitting call.
\<close>

record MockWebSocketProvider =
  mockProvider :: MockProvider
  connected :: bool
  ns_chainId :: nat
  connectionAttempts :: nat
  maxRetries :: nat

definition new_MockWebSocketProvider :: "nat \<Rightarrow> MockWebSocketProvider" where
  "new_MockWebSocketProvider cid =
     \<lparr>mockProvider = new_MockProvider cid,
      connected = False,
      ns_chainId = (if cid = 0 then 138 else cid),
      connectionAttempts = 0,
      maxRetries = 3\<rparr>"

text \<open>
  \<^verbatim>\<open>connect()\<close>: the first component is the error the call throws, if any.
  \<^verbatim>\<open>detectNetwork\<close> only waits and returns, so the sole throw is the guard on the
  attempt counter; the \<^verbatim>\<open>catch\<close> re-throws the same error.
\<close>

definition connect :: "MockWebSocketProvider \<Rightarrow> error option \<times> MockWebSocketProvider" where
  "connect w =
     (if connectionAttempts w \<ge> maxRetries w then (Some MaxConnectionAttemptsReached, w)
      else (None, w\<lparr>connectionAttempts := connectionAttempts w + 1,
                     connected := True,
                     mockProvider := startBlockProduction (mockProvider w)\<rparr>))"

definition disconnect :: "MockWebSocketProvider \<Rightarrow> MockWebSocketProvider" where
  "disconnect w =
     w\<lparr>connected := False,
       mockProvider := stopBlockProduction (mockProvider w),
       connectionAttempts := 0\<rparr>"

definition ensureConnected :: "MockWebSocketProvider \<Rightarrow> error option" where
  "ensureConnected w = (if connected w then None else Some ProviderNotConnected)"


definition ws_getTransaction :: "string \<Rightarrow> MockWebSocketProvider \<Rightarrow> error + mock_tx option" where
  "ws_getTransaction h w =
     (case ensureConnected w of
        Some e \<Rightarrow> Inl e
      | None \<Rightarrow> Inr (getTransaction h (mockProvider w)))"


text \<open>
  \<^verbatim>\<open>send(method, params)\<close>. The reply is a string, a boolean, a block, a
  transaction or a receipt (\<open>None\<close> is \<^verbatim>\<open>null\<close>). \<^verbatim>\<open>params[0]\<close> of an empty
  list is \<^verbatim>\<open>undefined\<close>, which no transaction is stored under. \<open>now\<close> is the
  clock at the call. The block query parses its parameter with
  \<^verbatim>\<open>parseInt(params[0], 16)\<close> and hands the result to \<open>getBlock\<close>, which does
  not read it.
\<close>

datatype rpc_value =
    RString string
  | RBool bool
  | RBlock block
  | RTransaction "mock_tx option"
  | RReceipt "mock_receipt option"

definition ws_send ::
    "nat \<Rightarrow> string \<Rightarrow> string list \<Rightarrow> MockWebSocketProvider \<Rightarrow> error + rpc_value" where
  "ws_send now method params w =
     (case ensureConnected w of
        Some e \<Rightarrow> Inl e
      | None \<Rightarrow>
          (if method = ''eth_chainId''
             then Inr (RString (''0x'' @ toStringRadix 16 (ns_chainId w)))
           else if method = ''eth_networkVersion'' \<or> method = ''net_version''
             then Inr (RString (toStringRadix 10 (ns_chainId w)))
           else if method = ''eth_blockNumber''
             then Inr (RString (''0x'' @ toStringRadix 16 (blockNumber (mockProvider w))))
           else if method = ''eth_getBlockByNumber''
             then Inr (RBlock (getBlock now (map_option parseInt16 (list_head params)) (mockProvider w)))
           else if method = ''eth_getTransactionByHash''
             then Inr (RTransaction
                    (case list_head params of
                       None \<Rightarrow> None
                     | Some h \<Rightarrow> getTransaction h (mockProvider w)))
           else if method = ''eth_getTransactionReceipt''
             then Inr (RReceipt
                    (case list_head params of
                       None \<Rightarrow> None
                     | Some h \<Rightarrow> getTransactionReceipt h (mockProvider w)))
           else if method = ''net_listening'' then Inr (RBool True)
           else if method = ''eth_syncing'' then Inr (RBool False)
           else Inl (MethodNotImplemented method)))"






section \<open>RelayManager\<close>

text \<open>
  The relay's external collaborators: \<^verbatim>\<open>ethers.BigNumber.from\<close> (\<open>None\<close> when it
  throws) and the signing wallet of the target chain. \<open>wallet_send env k req\<close> is what
  the \<open>k\<close>-th call of \<^verbatim>\<open>wallet.sendTransaction\<close> (counting from 0) does with the
  request \<open>req\<close>: it throws, or it returns a transaction with a hash whose
  \<^verbatim>\<open>wait()\<close> throws or yields a receipt with a status.
\<close>

record formatted_tx =
  f_to :: string
  f_value :: nat
  f_data :: string
  f_gasLimit :: nat
  f_gasPrice :: nat

datatype wait_outcome = WaitThrows | Receipt nat

datatype send_outcome = SendThrows | Sent string wait_outcome

record target_env =
  BigNumber_from :: "string \<Rightarrow> nat option"
  wallet_send :: "nat \<Rightarrow> formatted_tx \<Rightarrow> send_outcome"

datatype network = Source | Target

text \<open>
  The fields of the class that its methods read or write: the configuration
  (\<^verbatim>\<open>config.metrics.retryAttempts\<close>, \<^verbatim>\<open>config.metrics.retryDelay\<close>,
  \<^verbatim>\<open>config.sourceNetwork.chainId\<close>), the source provider (\<open>None\<close> is
  \<^verbatim>\<open>null\<close>), whether the target provider is set, the five metrics and the
  connection state. \<open>sent\<close> is not a field of the class: it lists, oldest first,
  the calls of \<^verbatim>\<open>wallet.sendTransaction\<close> made so far, each with the source hash
  it was made for.
\<close>

record RelayManager =
  retryAttempts :: nat
  retryDelay :: nat
  source_chainId :: nat
  provider :: "MockWebSocketProvider option"
  ethProvider :: bool
  metrics_transactions :: nat
  metrics_successful :: nat
  metrics_failed :: nat
  metrics_retries :: nat
  metrics_disconnections :: nat
  cs_source :: bool
  cs_target :: bool
  sent :: "(string \<times> formatted_tx) list"

definition formatTx :: "target_env \<Rightarrow> mock_tx \<Rightarrow> formatted_tx option" where
  "formatTx env tx =
     (case BigNumber_from env (tx_value tx) of
        None \<Rightarrow> None
      | Some v \<Rightarrow>
          (case BigNumber_from env (tx_gasLimit tx) of
             None \<Rightarrow> None
           | Some gl \<Rightarrow>
               (case BigNumber_from env (tx_gasPrice tx) of
                  None \<Rightarrow> None
                | Some gp \<Rightarrow>
                    Some \<lparr>f_to = tx_to tx,
                          f_value = v,
                          f_data = (if tx_data tx = [] then ''0x'' else tx_data tx),
                          f_gasLimit = gl,
                          f_gasPrice = gp\<rparr>)))"

datatype attempt_result = Skipped | Succeeded | Failed error

text \<open>
  The \<^verbatim>\<open>try\<close> block of \<^verbatim>\<open>relayTransaction\<close> after
  \<^verbatim>\<open>this.metrics.transactions++\<close>, up to the classification of the receipt:
  \<open>Skipped\<close> is the early \<^verbatim>\<open>return\<close> on a missing transaction, \<open>Failed\<close>
  every throw that reaches the \<^verbatim>\<open>catch\<close>.
\<close>

definition relay_attempt ::
    "target_env \<Rightarrow> string \<Rightarrow> RelayManager \<Rightarrow> attempt_result \<times> RelayManager" where
  "relay_attempt env txHash m =
     (case provider m of
        None \<Rightarrow> (Failed TypeError, m)
      | Some w \<Rightarrow>
          (case ws_getTransaction txHash w of
             Inl e \<Rightarrow> (Failed e, m)
           | Inr None \<Rightarrow> (Skipped, m)
           | Inr (Some tx) \<Rightarrow>
               (case formatTx env tx of
                  None \<Rightarrow> (Failed ExternalFailure, m)
                | Some req \<Rightarrow>
                    (let m' = m\<lparr>sent := sent m @ [(txHash, req)]\<rparr> in
                     case wallet_send env (length (sent m)) req of
                       SendThrows \<Rightarrow> (Failed ExternalFailure, m')
                     | Sent h WaitThrows \<Rightarrow> (Failed ExternalFailure, m')
                     | Sent h (Receipt st) \<Rightarrow>
                         (if st = 1 then (Succeeded, m') else (Failed TransactionFailed, m'))))))"

definition shouldRetry :: "string \<Rightarrow> RelayManager \<Rightarrow> bool" where
  "shouldRetry txHash m = (metrics_retries m < retryAttempts m)"

lemma relay_attempt_keeps:
  "relay_attempt env txHash m = (r, m') \<Longrightarrow>
     metrics_retries m' = metrics_retries m \<and> retryAttempts m' = retryAttempts m"
  by (auto simp: relay_attempt_def Let_def
           split: option.splits sum.splits send_outcome.splits wait_outcome.splits if_splits)

text \<open>
  \<^verbatim>\<open>relayTransaction(txHash)\<close> with \<^verbatim>\<open>retryTransaction\<close> inlined: the retry
  waits \<^verbatim>\<open>retryDelay\<close> milliseconds and calls \<^verbatim>\<open>relayTransaction\<close> again.
  The source provider is the same during the whole call.
\<close>

function relayTransaction :: "target_env \<Rightarrow> string \<Rightarrow> RelayManager \<Rightarrow> RelayManager" where
  "relayTransaction env txHash m =
     (case relay_attempt env txHash (m\<lparr>metrics_transactions := metrics_transactions m + 1\<rparr>) of
        (Skipped, m') \<Rightarrow> m'
      | (Succeeded, m') \<Rightarrow> m'\<lparr>metrics_successful := metrics_successful m' + 1\<rparr>
      | (Failed e, m') \<Rightarrow>
          (let m'' = m'\<lparr>metrics_failed := metrics_failed m' + 1\<rparr> in
           if shouldRetry txHash m''
           then relayTransaction env txHash (m''\<lparr>metrics_retries := metrics_retries m'' + 1\<rparr>)
           else m''))"
  by pat_completeness auto
termination
  apply (relation "measure (\<lambda>(env, txHash, m). retryAttempts m - metrics_retries m)")
   apply simp
  apply (auto simp: shouldRetry_def dest!: relay_attempt_keeps [OF sym])
  done

declare relayTransaction.simps [simp del]


definition handleConnect :: "network \<Rightarrow> RelayManager \<Rightarrow> RelayManager" where
  "handleConnect nw m = (case nw of Source \<Rightarrow> m\<lparr>cs_source := True\<rparr> | Target \<Rightarrow> m\<lparr>cs_target := True\<rparr>)"

text \<open>What a disconnect handler does about reconnecting: call \<^verbatim>\<open>connect\<close> at
  once, arm a timer that reconnects after a delay in milliseconds, or stop.\<close>

datatype reconnect_action = ConnectNow | ConnectAfter nat | Stop

text \<open>
  \<^verbatim>\<open>handleDisconnect('source')\<close>, the only way \<^verbatim>\<open>initialize\<close> registers the
  handler. The body has no timer: after the two assignments it awaits
  \<^verbatim>\<open>provider.connect()\<close>, whose \<^verbatim>\<open>'connect'\<close> event runs
  \<^verbatim>\<open>handleConnect('source')\<close>. The result is the action taken, the error the
  handler rejects with (if any) and the manager.
\<close>

definition handleDisconnect ::
    "RelayManager \<Rightarrow> reconnect_action \<times> error option \<times> RelayManager" where
  "handleDisconnect m =
     (let m1 = m\<lparr>cs_source := False, metrics_disconnections := metrics_disconnections m + 1\<rparr> in
      case provider m1 of
        None \<Rightarrow> (ConnectNow, Some TypeError, m1)
      | Some w \<Rightarrow>
          (case connect w of
             (Some e, w') \<Rightarrow> (ConnectNow, Some e, m1\<lparr>provider := Some w'\<rparr>)
           | (None, w') \<Rightarrow> (ConnectNow, None, handleConnect Source (m1\<lparr>provider := Some w'\<rparr>))))"

text \<open>
  A disconnect of the source as the manager sees it: the provider's
  \<^verbatim>\<open>disconnect()\<close> emits \<^verbatim>\<open>'disconnect'\<close>, which runs the handler.
\<close>

definition source_disconnects ::
    "RelayManager \<Rightarrow> reconnect_action \<times> error option \<times> RelayManager" where
  "source_disconnects m =
     handleDisconnect (m\<lparr>provider := map_option disconnect (provider m)\<rparr>)"


text \<open>\<open>n\<close> disconnects of the source in a row, as the relay manager handles them.\<close>

fun disconnects :: "nat \<Rightarrow> RelayManager \<Rightarrow> reconnect_action list \<times> RelayManager" where
  "disconnects 0 m = ([], m)"
| "disconnects (Suc n) m =
     (case source_disconnects m of
        (a, e, m') \<Rightarrow> (case disconnects n m' of (as, m'') \<Rightarrow> (a # as, m'')))"


section \<open>RelayManager.waitForConnections\<close>

text \<open>
  The endpoints as the polling loop sees them. \<open>elapsed env i\<close> is
  \<^verbatim>\<open>Date.now() - start\<close> at the loop test that precedes attempt \<open>i\<close>
  (attempts are numbered from 1, as the source prints them); the four replies are
  what \<^verbatim>\<open>send('eth_blockNumber', [])\<close> and \<^verbatim>\<open>send('eth_chainId', [])\<close> do on
  the source and on the target provider when called during attempt \<open>i\<close>.
\<close>

datatype rpc_reply = Throws | Returns string

record wfc_env =
  elapsed :: "nat \<Rightarrow> int"
  source_blockNumber :: "nat \<Rightarrow> rpc_reply"
  source_chainId_reply :: "nat \<Rightarrow> rpc_reply"
  target_blockNumber :: "nat \<Rightarrow> rpc_reply"
  target_chainId_reply :: "nat \<Rightarrow> rpc_reply"

text \<open>What the loop does that the outside can see: an RPC sent to an endpoint
  during an attempt, an endpoint marked verified in an attempt, a wait.\<close>

datatype wfc_event = Rpc network string nat | Verified network nat | Sleep nat

definition wfc_maxAttempts :: nat where
  "wfc_maxAttempts = 5"

definition wfc_retryDelay :: nat where
  "wfc_retryDelay = 2000"

text \<open>The helper \<^verbatim>\<open>verifyChainId\<close>, given the reply to its \<^verbatim>\<open>eth_chainId\<close>
  call: a throw is caught and yields \<^verbatim>\<open>false\<close>.\<close>

definition verifyChainId :: "rpc_reply \<Rightarrow> nat \<Rightarrow> bool" where
  "verifyChainId reply expectedChainId =
     (case reply of
        Throws \<Rightarrow> False
      | Returns chainIdHex \<Rightarrow> parseInt16 chainIdHex = Some (int expectedChainId))"

text \<open>One endpoint's inner \<^verbatim>\<open>try\<close> block: the liveness call, then the chain id
  check. A throw of the liveness call skips the chain id call.\<close>

definition wfc_poll ::
    "network \<Rightarrow> nat \<Rightarrow> rpc_reply \<Rightarrow> rpc_reply \<Rightarrow> nat \<Rightarrow> bool \<times> wfc_event list" where
  "wfc_poll nw i blockReply chainReply expectedChainId =
     (case blockReply of
        Throws \<Rightarrow> (False, [Rpc nw ''eth_blockNumber'' i])
      | Returns b \<Rightarrow>
          (if verifyChainId chainReply expectedChainId
           then (True, [Rpc nw ''eth_blockNumber'' i, Rpc nw ''eth_chainId'' i, Verified nw i])
           else (False, [Rpc nw ''eth_blockNumber'' i, Rpc nw ''eth_chainId'' i])))"

text \<open>
  The body of the \<^verbatim>\<open>while\<close> loop from the source block to the target block, for
  attempt \<open>i\<close> with the flags \<^verbatim>\<open>sourceVerified\<close> and \<^verbatim>\<open>targetVerified\<close> as they
  stand. The target's expected chain id is the literal 1.
\<close>

definition wfc_attempt ::
    "wfc_env \<Rightarrow> nat \<Rightarrow> bool \<Rightarrow> bool \<Rightarrow> RelayManager
     \<Rightarrow> (bool \<times> bool) \<times> RelayManager \<times> wfc_event list" where
  "wfc_attempt env i sv tv m =
     (let (sv', m1, ev1) =
            (if provider m \<noteq> None \<and> \<not> sv then
               (case wfc_poll Source i (source_blockNumber env i) (source_chainId_reply env i)
                       (source_chainId m) of
                  (True, ev) \<Rightarrow> (True, m\<lparr>cs_source := True\<rparr>, ev)
                | (False, ev) \<Rightarrow> (sv, m, ev))
             else (sv, m, []));
          (tv', m2, ev2) =
            (if ethProvider m1 \<and> \<not> tv then
               (case wfc_poll Target i (target_blockNumber env i) (target_chainId_reply env i) 1 of
                  (True, ev) \<Rightarrow> (True, m1\<lparr>cs_target := True\<rparr>, ev)
                | (False, ev) \<Rightarrow> (tv, m1, ev))
             else (tv, m1, []))
      in ((sv', tv'), m2, ev1 @ ev2))"

definition prepend :: "'e list \<Rightarrow> 'r \<times> 's \<times> 'e list \<Rightarrow> 'r \<times> 's \<times> 'e list" where
  "prepend ev r = (fst r, fst (snd r), ev @ snd (snd r))"

text \<open>
  The \<^verbatim>\<open>while\<close> loop and the \<^verbatim>\<open>throw\<close> after it. The error carries the number
  of attempts and the two flags, as the message of the source does.
\<close>

function wfc_loop ::
    "wfc_env \<Rightarrow> int \<Rightarrow> nat \<Rightarrow> bool \<Rightarrow> bool \<Rightarrow> RelayManager
     \<Rightarrow> (error + bool) \<times> RelayManager \<times> wfc_event list" where
  "wfc_loop env timeout attempts sv tv m =
     (if elapsed env (attempts + 1) < timeout \<and> attempts < wfc_maxAttempts then
        (case wfc_attempt env (attempts + 1) sv tv m of
           ((sv', tv'), m', ev) \<Rightarrow>
             if sv' \<and> tv' then (Inr True, m', ev)
             else prepend (ev @ [Sleep wfc_retryDelay])
                    (wfc_loop env timeout (attempts + 1) sv' tv' m'))
      else (Inl (ConnectionVerificationFailed attempts sv tv), m, []))"
  by pat_completeness auto
termination
  by (relation "measure (\<lambda>(env, timeout, attempts, sv, tv, m). wfc_maxAttempts - attempts)") auto

declare wfc_loop.simps [simp del]

definition waitForConnections ::
    "wfc_env \<Rightarrow> int \<Rightarrow> RelayManager \<Rightarrow> (error + bool) \<times> RelayManager \<times> wfc_event list" where
  "waitForConnections env timeout m = prepend [Sleep 3000] (wfc_loop env timeout 0 False False m)"

text \<open>
  The replies of a \<^verbatim>\<open>MockWebSocketProvider\<close> that stays as it is during the
  polling, as \<^verbatim>\<open>parseInt\<close> reads them: a string as it is, any other value
  through JavaScript's string conversion.
\<close>

definition js_toString :: "rpc_value \<Rightarrow> string" where
  "js_toString v =
     (case v of
        RString s \<Rightarrow> s
      | RBool b \<Rightarrow> (if b then ''true'' else ''false'')
      | RBlock b \<Rightarrow> ''[object Object]''
      | RTransaction t \<Rightarrow> (case t of None \<Rightarrow> ''null'' | Some x \<Rightarrow> ''[object Object]'')
      | RReceipt r \<Rightarrow> (case r of None \<Rightarrow> ''null'' | Some x \<Rightarrow> ''[object Object]''))"

definition mock_reply :: "string \<Rightarrow> MockWebSocketProvider \<Rightarrow> rpc_reply" where
  "mock_reply method w =
     (case ws_send 0 method [] w of Inl e \<Rightarrow> Throws | Inr v \<Rightarrow> Returns (js_toString v))"


section \<open>TransactionMonitor.handleReconnection\<close>

record TransactionMonitor =
  isRunning :: bool
  reconnectAttempts :: nat
  maxReconnectAttempts :: nat
  reconnectDelay :: nat

definition new_TransactionMonitor :: TransactionMonitor where
  "new_TransactionMonitor =
     \<lparr>isRunning = False, reconnectAttempts = 0, maxReconnectAttempts = 5, reconnectDelay = 1000\<rparr>"

text \<open>
  \<^verbatim>\<open>stop()\<close>: \<open>ok\<close> says whether the calls into the provider, the socket and the
  metrics server return; when one throws, \<^verbatim>\<open>isRunning\<close> stays set and the error
  is re-thrown.
\<close>

definition monitor_stop :: "bool \<Rightarrow> TransactionMonitor \<Rightarrow> error option \<times> TransactionMonitor" where
  "monitor_stop ok mon =
     (if \<not> isRunning mon then (None, mon)
      else if ok then (None, mon\<lparr>isRunning := False\<rparr>)
      else (Some ExternalFailure, mon))"

text \<open>\<^verbatim>\<open>handleReconnection()\<close>, run on every \<^verbatim>\<open>'close'\<close> of the socket.\<close>

definition handleReconnection ::
    "bool \<Rightarrow> TransactionMonitor \<Rightarrow> reconnect_action \<times> error option \<times> TransactionMonitor" where
  "handleReconnection ok mon =
     (if reconnectAttempts mon \<ge> maxReconnectAttempts mon then
        (case monitor_stop ok mon of (e, mon') \<Rightarrow> (Stop, e, mon'))
      else
        (let mon' = mon\<lparr>reconnectAttempts := reconnectAttempts mon + 1,
                         reconnectDelay := reconnectDelay mon * 2\<rparr>
         in (ConnectAfter (reconnectDelay mon'), None, mon')))"

text \<open>The \<^verbatim>\<open>'open'\<close> listener.\<close>

definition handleOpen :: "TransactionMonitor \<Rightarrow> TransactionMonitor" where
  "handleOpen mon = mon\<lparr>reconnectAttempts := 0, reconnectDelay := 1000\<rparr>"

text \<open>\<open>n\<close> closes in a row, no open in between: the actions taken, oldest first.\<close>

fun closes :: "nat \<Rightarrow> bool \<Rightarrow> TransactionMonitor \<Rightarrow> reconnect_action list \<times> TransactionMonitor" where
  "closes 0 ok mon = ([], mon)"
| "closes (Suc n) ok mon =
     (case handleReconnection ok mon of
        (a, e, mon') \<Rightarrow> (case closes n ok mon' of (as, mon'') \<Rightarrow> (a # as, mon'')))"

section \<open>MainnetRelay.relayTransaction\<close>

text \<open>
  The transaction handed to the relay. A numeric field that is absent is falsy in
  the source's \<^verbatim>\<open>||\<close> and \<^verbatim>\<open>!\<close> tests exactly as 0 is, and an absent
  \<^verbatim>\<open>data\<close> as the empty string is; absent is therefore written 0 (or \<open>''''\<close>).
\<close>

record relay_request =
  rq_to :: string
  rq_value :: nat
  rq_data :: string
  rq_gasLimit :: nat
  rq_maxFeePerGas :: nat
  rq_maxPriorityFeePerGas :: nat

text \<open>The object passed to \<^verbatim>\<open>wallet.sendTransaction\<close>; \<open>None\<close> is a deleted or
  never assigned property.\<close>

record submit_tx =
  s_to :: string
  s_value :: nat
  s_data :: string
  s_gasLimit :: nat
  s_nonce :: nat
  s_type :: "nat option"
  s_maxFeePerGas :: "nat option"
  s_maxPriorityFeePerGas :: "nat option"
  s_gasPrice :: "nat option"

record chain_receipt =
  r_status :: nat
  r_blockNumber :: nat
  r_gasUsed :: nat
  r_effectiveGasPrice :: nat

record txInfo =
  i_status :: nat
  i_blockNumber :: nat
  i_timestamp :: nat
  i_blockscoutUrl :: string
  i_quorumUrl :: string
  i_gasUsed :: string
  i_effectiveGasPrice :: string
  i_chainId :: nat
  i_networkId :: nat

text \<open>
  The settings read from the process environment: \<^verbatim>\<open>MAX_RETRIES\<close> (default 3),
  \<^verbatim>\<open>MAX_GAS_PRICE\<close> in wei (default 100 gwei) and
  \<^verbatim>\<open>Math.floor(GAS_PRICE_BUFFER * 100)\<close> (default 120).
\<close>

record mainnet_config =
  MAX_RETRIES :: nat
  MAX_GAS_PRICE :: nat
  bufferBasisPoints :: nat

definition default_mainnet_config :: mainnet_config where
  "default_mainnet_config =
     \<lparr>MAX_RETRIES = 3, MAX_GAS_PRICE = 100 * 1000000000, bufferBasisPoints = 120\<rparr>"

text \<open>
  What the chain client answers during one pass through the \<^verbatim>\<open>try\<close> block;
  \<open>None\<close> (or \<open>False\<close>) is a throw. \<open>success_clock\<close> is \<^verbatim>\<open>Date.now()\<close> when the
  record of a success is built.
\<close>

record mainnet_env =
  estimateGas_reply :: "nat option"
  getTransactionCount_reply :: "nat option"
  getGasPrice_reply :: "nat option"
  sendTransaction_reply :: "submit_tx \<Rightarrow> string option"
  getNetwork_reply :: bool
  wait_reply :: "chain_receipt option"
  success_clock :: nat

record MainnetRelay =
  isInitialized :: bool
  relay_transactions :: "(string \<times> txInfo) list"

text \<open>What a call does that the outside can see: a transaction handed to the
  wallet for sending, the log line of a failed attempt with the attempt counter, the
  success metric, the gas gauge, the end of the timing, a wait.\<close>

datatype relay_effect =
    Submit submit_tx
  | AttemptFailed nat
  | RecordSuccess string
  | UpdateGasUsage string
  | EndTimer
  | Wait nat

definition estimateGas :: "mainnet_config \<Rightarrow> mainnet_env \<Rightarrow> nat" where
  "estimateGas cfg env =
     (case estimateGas_reply env of
        None \<Rightarrow> 500000
      | Some estimate \<Rightarrow> estimate * bufferBasisPoints cfg div 100)"

text \<open>
  The \<^verbatim>\<open>try\<close> block of the loop: \<open>Inl\<close> is the error thrown into the
  \<^verbatim>\<open>catch\<close>, \<open>Inr\<close> the hash and record of a success.
\<close>

definition mainnet_try ::
    "mainnet_config \<Rightarrow> mainnet_env \<Rightarrow> relay_request \<Rightarrow> MainnetRelay
     \<Rightarrow> (error + string \<times> txInfo) \<times> MainnetRelay \<times> relay_effect list" where
  "mainnet_try cfg env rq s =
     (let gasLimit = (if rq_gasLimit rq \<noteq> 0 then rq_gasLimit rq else estimateGas cfg env) in
      case getTransactionCount_reply env of
        None \<Rightarrow> (Inl ExternalFailure, s, [])
      | Some nonce \<Rightarrow>
          (let tx = \<lparr>s_to = rq_to rq,
                     s_value = rq_value rq,
                     s_data = (if rq_data rq = [] then ''0x'' else rq_data rq),
                     s_gasLimit = gasLimit,
                     s_nonce = nonce,
                     s_type = Some 2,
                     s_maxFeePerGas = Some (rq_maxFeePerGas rq),
                     s_maxPriorityFeePerGas = Some (rq_maxPriorityFeePerGas rq),
                     s_gasPrice = None\<rparr>;
               priced =
                 (if rq_maxFeePerGas rq = 0 \<or> rq_maxPriorityFeePerGas rq = 0 then
                    (case getGasPrice_reply env of
                       None \<Rightarrow> Inl ExternalFailure
                     | Some gasPrice \<Rightarrow>
                         if gasPrice > MAX_GAS_PRICE cfg then Inl GasPriceExceedsMaximum
                         else Inr (tx\<lparr>s_type := None, s_maxFeePerGas := None,
                                       s_maxPriorityFeePerGas := None,
                                       s_gasPrice := Some gasPrice\<rparr>))
                  else Inr tx)
           in case priced of
                Inl e \<Rightarrow> (Inl e, s, [])
              | Inr tx' \<Rightarrow>
                  (case sendTransaction_reply env tx' of
                     None \<Rightarrow> (Inl ExternalFailure, s, [Submit tx'])
                   | Some hash \<Rightarrow>
                       (if \<not> getNetwork_reply env then (Inl ExternalFailure, s, [Submit tx'])
                        else
                          (case wait_reply env of
                             None \<Rightarrow> (Inl ExternalFailure, s, [Submit tx'])
                           | Some receipt \<Rightarrow>
                               (if r_status receipt = 0
                                then (Inl TransactionFailedOnChain, s, [Submit tx'])
                                else
                                  (let info =
                                         \<lparr>i_status = r_status receipt,
                                          i_blockNumber = r_blockNumber receipt,
                                          i_timestamp = success_clock env,
                                          i_blockscoutUrl = ''https://blockscout.defi-oracle.io/tx/'' @ hash,
                                          i_quorumUrl = ''https://explorer.defi-oracle.io/tx/'' @ hash,
                                          i_gasUsed = toStringRadix 10 (r_gasUsed receipt),
                                          i_effectiveGasPrice = toStringRadix 10 (r_effectiveGasPrice receipt),
                                          i_chainId = 138,
                                          i_networkId = 1\<rparr>
                                   in (Inr (hash, info),
                                       s\<lparr>relay_transactions := map_set hash info (relay_transactions s)\<rparr>,
                                       [Submit tx', RecordSuccess hash,
                                        UpdateGasUsage (toStringRadix 10 (r_gasUsed receipt)),
                                        EndTimer, Wait 5000]))))))))"

text \<open>
  \<^verbatim>\<open>relayTransaction(transaction)\<close>. The loop starts with \<^verbatim>\<open>attempts = 0\<close>. Its
  \<^verbatim>\<open>catch\<close> block increments \<^verbatim>\<open>attempts\<close>, logs the attempt and then reads
  \<^verbatim>\<open>sentTx\<close>, a \<^verbatim>\<open>const\<close> declared inside the \<^verbatim>\<open>try\<close> block and so not in
  scope in the \<^verbatim>\<open>catch\<close>: the read throws a \<^verbatim>\<open>ReferenceError\<close>, which leaves
  the loop and the function. The \<^verbatim>\<open>try\<close> block either returns or throws, so the
  body of the loop runs at most once and the function is not recursive. With
  \<^verbatim>\<open>MAX_RETRIES\<close> 0 the loop is not entered and the function returns
  \<^verbatim>\<open>undefined\<close> (\<open>Inr None\<close>).
\<close>

definition MainnetRelay_relayTransaction ::
    "mainnet_config \<Rightarrow> mainnet_env \<Rightarrow> relay_request \<Rightarrow> MainnetRelay
     \<Rightarrow> (error + (string \<times> txInfo) option) \<times> MainnetRelay \<times> relay_effect list" where
  "MainnetRelay_relayTransaction cfg env rq s =
     (if \<not> isInitialized s then (Inl RelayNotInitialized, s, [])
      else if \<not> (0 < MAX_RETRIES cfg) then (Inr None, s, [])
      else
        (case mainnet_try cfg env rq s of
           (Inr res, s', ev) \<Rightarrow> (Inr (Some res), s', ev)
         | (Inl e, s', ev) \<Rightarrow> (Inl (ReferenceError ''sentTx''), s', ev @ [AttemptFailed (0 + 1)])))"


section \<open>Predicates and concrete objects used in the statements\<close>

text \<open>
  For stating what the polling achieves: an endpoint answers attempt \<open>i\<close> when,
  polled in that attempt, its liveness call returns and the chain id it reports
  parses to the expected one (the configured \<^verbatim>\<open>sourceNetwork.chainId\<close> for the
  source, 1 for the target).
\<close>

definition source_ok :: "wfc_env \<Rightarrow> RelayManager \<Rightarrow> nat \<Rightarrow> bool" where
  "source_ok env m i =
     (provider m \<noteq> None \<and> source_blockNumber env i \<noteq> Throws
      \<and> verifyChainId (source_chainId_reply env i) (source_chainId m))"

definition target_ok :: "wfc_env \<Rightarrow> RelayManager \<Rightarrow> nat \<Rightarrow> bool" where
  "target_ok env m i =
     (ethProvider m \<and> target_blockNumber env i \<noteq> Throws
      \<and> verifyChainId (target_chainId_reply env i) 1)"

text \<open>
  A concrete environment for the examples: the source is a mock provider that stays
  as it is, the target answers the liveness call from attempt \<open>up\<close> on and then
  reports the chain id \<open>cid\<close> (as \<^verbatim>\<open>0x\<close> and hexadecimal digits); attempt \<open>i\<close>
  starts \<open>3000 + 2000 * (i - 1)\<close> milliseconds after the start.
\<close>

definition example_wfc_env :: "MockWebSocketProvider \<Rightarrow> nat \<Rightarrow> nat \<Rightarrow> wfc_env" where
  "example_wfc_env w up cid =
     \<lparr>elapsed = (\<lambda>i. 3000 + 2000 * (int i - 1)),
      source_blockNumber = (\<lambda>i. mock_reply ''eth_blockNumber'' w),
      source_chainId_reply = (\<lambda>i. mock_reply ''eth_chainId'' w),
      target_blockNumber = (\<lambda>i. if i < up then Throws else Returns ''0x12a05f2''),
      target_chainId_reply = (\<lambda>i. Returns (''0x'' @ toStringRadix 16 cid))\<rparr>"



text \<open>A relay manager as \<^verbatim>\<open>initialize\<close> leaves it in mock mode, around a given
  source provider: the retry ceiling 3 and delay 1000 of the configuration file, the
  source chain id 138, both providers set, all metrics 0, nothing sent.\<close>

definition new_RelayManager :: "MockWebSocketProvider \<Rightarrow> RelayManager" where
  "new_RelayManager w =
     \<lparr>retryAttempts = 3, retryDelay = 1000, source_chainId = 138,
      provider = Some w, ethProvider = True,
      metrics_transactions = 0, metrics_successful = 0, metrics_failed = 0,
      metrics_retries = 0, metrics_disconnections = 0,
      cs_source = True, cs_target = True, sent = []\<rparr>"





text \<open>
  Concrete objects for the examples: a chain client that answers every call, with a
  given current gas price, and a transaction without EIP-1559 fee fields.
\<close>

definition example_mainnet_env :: "nat \<Rightarrow> mainnet_env" where
  "example_mainnet_env gasPrice =
     \<lparr>estimateGas_reply = Some 21000,
      getTransactionCount_reply = Some 7,
      getGasPrice_reply = Some gasPrice,
      sendTransaction_reply = (\<lambda>tx. Some (mock_hash (s_nonce tx))),
      getNetwork_reply = True,
      wait_reply = Some \<lparr>r_status = 1, r_blockNumber = 100, r_gasUsed = 21000,
                          r_effectiveGasPrice = gasPrice\<rparr>,
      success_clock = 1700000000000\<rparr>"

definition example_request :: relay_request where
  "example_request =
     \<lparr>rq_to = ''0x'' @ replicate 40 (CHR ''2''),
      rq_value = 1,
      rq_data = [],
      rq_gasLimit = 0,
      rq_maxFeePerGas = 0,
      rq_maxPriorityFeePerGas = 0\<rparr>"


section \<open>The simulator: block numbers, hashes, block queries, connection attempts\<close>

lemma generateMockTransaction_blockNumber:
  "blockNumber (snd (generateMockTransaction clk s)) = blockNumber s"
  by (simp add: generateMockTransaction_def Let_def)

lemma fold_generate_blockNumber:
  "blockNumber (fold (\<lambda>i st. snd (generateMockTransaction (clock i) st)) is s) = blockNumber s"
  by (induction "is" arbitrary: s) (simp_all add: generateMockTransaction_blockNumber)

lemma tick_blockNumber: "blockNumber (fst (tick k clock s)) = blockNumber s + 1"
  by (simp add: tick_def Let_def fold_generate_blockNumber del: fold_simps upt_Suc)

lemma tick_emits: "snd (tick k clock s) = blockNumber s + 1"
  by (simp add: tick_def Let_def fold_generate_blockNumber del: fold_simps upt_Suc)

lemma produce_numbers:
  "snd (produce ts s) = [blockNumber s + 1 ..< blockNumber s + 1 + length ts]
   \<and> blockNumber (fst (produce ts s)) = blockNumber s + length ts"
proof (induction ts arbitrary: s)
  case Nil
  show ?case by simp
next
  case (Cons t ts)
  obtain k clock where t: "t = (k, clock)" by (cases t)
  obtain s1 n where tk: "tick k clock s = (s1, n)" by (cases "tick k clock s")
  obtain s2 ns where pr: "produce ts s1 = (s2, ns)" by (cases "produce ts s1")
  have n: "n = blockNumber s + 1" using tick_emits [of k clock s] tk by simp
  have b1: "blockNumber s1 = blockNumber s + 1" using tick_blockNumber [of k clock s] tk by simp
  from Cons.IH [of s1] pr b1
  have ns: "ns = [Suc (blockNumber s + 1) ..< Suc (blockNumber s + 1) + length ts]"
    and b2: "blockNumber s2 = blockNumber s + 1 + length ts" by simp_all
  have "[blockNumber s + 1 ..< blockNumber s + 1 + length (t # ts)] =
        (blockNumber s + 1) # [Suc (blockNumber s + 1) ..< Suc (blockNumber s + 1) + length ts]"
    by (simp add: upt_conv_Cons del: upt_Suc)
  then have "n # ns = [blockNumber s + 1 ..< blockNumber s + 1 + length (t # ts)]"
    using n ns by simp
  moreover have "produce (t # ts) s = (s2, n # ns)"
    using t tk pr by simp
  ultimately show ?case using b2 by simp
qed

text \<open>
  C8. Within one run of the simulator's timer, starting from any provider state, the
  emitted block numbers are the provider's block number plus 1, plus 2, and so on:
  each block's number is exactly the number of the block before it plus 1, and the
  first one is the initial height plus 1.
\<close>

theorem C8_block_numbers_increase_by_one:
  "snd (produce ts s) = [blockNumber s + 1 ..< blockNumber s + 1 + length ts]
   \<and> (\<forall>i. Suc i < length (snd (produce ts s)) \<longrightarrow>
          snd (produce ts s) ! Suc i = snd (produce ts s) ! i + 1)"
proof -
  have eq: "snd (produce ts s) = [blockNumber s + 1 ..< blockNumber s + 1 + length ts]"
    using produce_numbers [of ts s] by simp
  have len: "length (snd (produce ts s)) = length ts"
    by (simp add: eq del: upt_Suc)
  have nth: "snd (produce ts s) ! i = blockNumber s + 1 + i" if "i < length ts" for i
    using that by (simp add: eq del: upt_Suc)
  have "snd (produce ts s) ! Suc i = snd (produce ts s) ! i + 1"
    if "Suc i < length (snd (produce ts s))" for i
    using that nth [of i] nth [of "Suc i"] by (simp add: len)
  with eq show ?thesis by blast
qed

theorem C8_block_numbers_witness:
  "snd (produce [(0, \<lambda>i. (1700000000000, 1700000000000)),
                 (2, \<lambda>i. (1700000005000, 1700000005000)),
                 (1, \<lambda>i. (1700000010000, 1700000010000))] (new_MockProvider 138)) = [1, 2, 3]
   \<and> Suc 0 < length (snd (produce [(0, \<lambda>i. (1700000000000, 1700000000000)),
                 (2, \<lambda>i. (1700000005000, 1700000005000)),
                 (1, \<lambda>i. (1700000010000, 1700000010000))] (new_MockProvider 138)))
   \<and> snd (produce [(0, \<lambda>i. (1700000000000, 1700000000000)),
                 (2, \<lambda>i. (1700000005000, 1700000005000)),
                 (1, \<lambda>i. (1700000010000, 1700000010000))] (new_MockProvider 138)) ! Suc 0
     = snd (produce [(0, \<lambda>i. (1700000000000, 1700000000000)),
                 (2, \<lambda>i. (1700000005000, 1700000005000)),
                 (1, \<lambda>i. (1700000010000, 1700000010000))] (new_MockProvider 138)) ! 0 + 1"
proof -
  let ?ts = "[(0::nat, \<lambda>i::nat. (1700000000000::nat, 1700000000000::nat)),
              (2, \<lambda>i. (1700000005000, 1700000005000)),
              (1, \<lambda>i. (1700000010000, 1700000010000))]"
  have "snd (produce ?ts (new_MockProvider 138)) =
          [blockNumber (new_MockProvider 138) + 1 ..<
           blockNumber (new_MockProvider 138) + 1 + length ?ts]"
    using C8_block_numbers_increase_by_one [of ?ts "new_MockProvider 138"] by (rule conjunct1)
  also have "\<dots> = [1, 2, 3]"
    by (simp add: new_MockProvider_def upt_rec)
  finally have eq: "snd (produce ?ts (new_MockProvider 138)) = [1, 2, 3]" .
  show ?thesis
    by (simp only: eq) simp
qed









lemma mock_hash_1700000000000:
  "mock_hash 1700000000000 = ''0x0000000000000000000000000000000000000031373030303030303030303030''"
  by code_simp

lemma mock_hash_1700000005000:
  "mock_hash 1700000005000 = ''0x0000000000000000000000000000000000000031373030303030303035303030''"
  by code_simp

lemma toStringRadix_small: "toStringRadix 16 0 = ''0''" "toStringRadix 16 (Suc 0) = ''1''"
  by code_simp+

lemma map_set_keys:
  "map_keys (map_set k v m) = (if k \<in> set (map_keys m) then map_keys m else map_keys m @ [k])"
  by (induction m) (force simp: map_keys_def)+

lemma generateMockTransaction_keys:
  "map_keys (transactions (snd (generateMockTransaction clk s))) =
     (if mock_hash (fst clk) \<in> set (map_keys (transactions s)) then map_keys (transactions s)
      else map_keys (transactions s) @ [mock_hash (fst clk)])"
  by (simp add: generateMockTransaction_def Let_def map_set_keys)

lemma generateMockTransaction_hash:
  "tx_hash (fst (generateMockTransaction clk s)) = mock_hash (fst clk)"
  by (simp add: generateMockTransaction_def Let_def)

lemma generateMockTransaction_nonce:
  "tx_nonce (fst (generateMockTransaction clk s)) = ''0x'' @ toStringRadix 16 (length (transactions s))"
  by (simp add: generateMockTransaction_def Let_def)

lemma map_keys_Nil: "map_keys [] = []"
  by (simp add: map_keys_def)

lemma length_map_keys: "length (map_keys m) = length m"
  by (simp add: map_keys_def)

lemma new_MockProvider_fields:
  "transactions (new_MockProvider cid) = []" "blockNumber (new_MockProvider cid) = 0"
  by (simp_all add: new_MockProvider_def)

lemma tick_0:
  "fst (tick 0 clock s) = snd (generateMockTransaction (clock 0) (s\<lparr>blockNumber := blockNumber s + 1\<rparr>))"
  by (simp add: tick_def Let_def)

lemma tick_2:
  "fst (tick 2 clock s) =
     snd (generateMockTransaction (clock 2)
       (snd (generateMockTransaction (clock 1)
         (snd (generateMockTransaction (clock 0) (s\<lparr>blockNumber := blockNumber s + 1\<rparr>))))))"
proof -
  have "[0..<2 + 1] = [0, 1, 2]"
    by (simp add: upt_rec)
  then show ?thesis
    by (simp add: tick_def Let_def del: upt_Suc)
qed

lemma same_clock_same_hash:
  "tx_hash (fst (generateMockTransaction (t, t) (new_MockProvider cid)))
     = tx_hash (fst (generateMockTransaction (t, t)
         (snd (generateMockTransaction (t, t) (new_MockProvider cid)))))
   \<and> fst (generateMockTransaction (t, t) (new_MockProvider cid))
     \<noteq> fst (generateMockTransaction (t, t)
         (snd (generateMockTransaction (t, t) (new_MockProvider cid))))
   \<and> map_keys (transactions (fst (tick 2 (\<lambda>i. (t, t)) (new_MockProvider cid)))) = [mock_hash t]"
proof -
  let ?g1 = "generateMockTransaction (t, t) (new_MockProvider cid)"
  let ?g2 = "generateMockTransaction (t, t) (snd ?g1)"
  have same: "tx_hash (fst ?g1) = tx_hash (fst ?g2)"
    by (simp add: generateMockTransaction_hash)
  have n1: "tx_nonce (fst ?g1) = ''0x0''"
    by (simp add: generateMockTransaction_nonce new_MockProvider_fields toStringRadix_small)
  have "map_keys (transactions (snd ?g1)) = [mock_hash t]"
    by (simp add: generateMockTransaction_keys new_MockProvider_fields map_keys_Nil)
  then have "length (transactions (snd ?g1)) = Suc 0"
    using length_map_keys [of "transactions (snd ?g1)"] by simp
  then have n2: "tx_nonce (fst ?g2) = ''0x1''"
    by (simp add: generateMockTransaction_nonce toStringRadix_small)
  from n1 n2 have diff: "fst ?g1 \<noteq> fst ?g2"
    by auto
  have "map_keys (transactions (fst (tick 2 (\<lambda>i. (t, t)) (new_MockProvider cid)))) = [mock_hash t]"
    by (simp add: tick_2 generateMockTransaction_keys new_MockProvider_fields map_keys_Nil)
  with same diff show ?thesis by blast
qed

text \<open>
  C6 at the failing input: two transactions synthesized while \<^verbatim>\<open>Date.now()\<close>
  reads the same millisecond, 1700000000000. They are distinct transactions (their
  nonces differ) with the same hash, and a block-production tick that synthesizes
  three transactions within that millisecond leaves a single key in the
  transactions map.
\<close>

theorem C6_same_millisecond_same_hash:
  "tx_hash (fst (generateMockTransaction (1700000000000, 1700000000000) (new_MockProvider 138)))
     = tx_hash (fst (generateMockTransaction (1700000000000, 1700000000000)
         (snd (generateMockTransaction (1700000000000, 1700000000000) (new_MockProvider 138)))))
   \<and> fst (generateMockTransaction (1700000000000, 1700000000000) (new_MockProvider 138))
     \<noteq> fst (generateMockTransaction (1700000000000, 1700000000000)
         (snd (generateMockTransaction (1700000000000, 1700000000000) (new_MockProvider 138))))
   \<and> map_keys (transactions (fst (tick 2 (\<lambda>i. (1700000000000, 1700000000000)) (new_MockProvider 138))))
     = [mock_hash 1700000000000]"
  by (rule same_clock_same_hash)

lemma two_blocks_getBlock:
  assumes ne: "mock_hash t2 \<noteq> mock_hash t1"
  shows "blk_number (getBlock now1 n (fst (tick 0 (\<lambda>i. (t1, t1)) (new_MockProvider cid)))) = 1
   \<and> blk_transactions (getBlock now1 n (fst (tick 0 (\<lambda>i. (t1, t1)) (new_MockProvider cid))))
      = [mock_hash t1]
   \<and> blk_number (getBlock now2 n
      (fst (tick 0 (\<lambda>i. (t2, t2)) (fst (tick 0 (\<lambda>i. (t1, t1)) (new_MockProvider cid)))))) = 2
   \<and> blk_transactions (getBlock now2 n
      (fst (tick 0 (\<lambda>i. (t2, t2)) (fst (tick 0 (\<lambda>i. (t1, t1)) (new_MockProvider cid))))))
      = [mock_hash t1, mock_hash t2]"
proof -
  let ?s0 = "new_MockProvider cid"
  let ?s1 = "fst (tick 0 (\<lambda>i. (t1, t1)) ?s0)"
  let ?s2 = "fst (tick 0 (\<lambda>i. (t2, t2)) ?s1)"
  have b1: "blockNumber ?s1 = 1"
    by (simp add: tick_blockNumber new_MockProvider_fields)
  have b2: "blockNumber ?s2 = 2"
    by (simp add: tick_blockNumber new_MockProvider_fields)
  have k1: "map_keys (transactions ?s1) = [mock_hash t1]"
    by (simp add: tick_0 generateMockTransaction_keys new_MockProvider_fields map_keys_Nil)
  have "map_keys (transactions ?s2) =
          (if mock_hash t2 \<in> set (map_keys (transactions ?s1)) then map_keys (transactions ?s1)
           else map_keys (transactions ?s1) @ [mock_hash t2])"
    by (simp add: tick_0 [of _ ?s1] generateMockTransaction_keys)
  with ne have k2: "map_keys (transactions ?s2) = [mock_hash t1, mock_hash t2]"
    by (simp add: k1)
  show ?thesis
    by (simp add: getBlock_def b1 b2 k1 k2)
qed

text \<open>
  C3 at the failing input: a provider produces block 1 (one transaction, at
  1700000000000) and then block 2 (one transaction, at 1700000005000). The query for
  block 1 made after block 1 returns number 1 and the one hash; the same query made
  after block 2 returns number 2 and both hashes.
\<close>

theorem C3_getBlock_ignores_requested_number:
  "blk_number (getBlock 1700000001000 (1::nat)
      (fst (tick 0 (\<lambda>i. (1700000000000, 1700000000000)) (new_MockProvider 138)))) = 1
   \<and> blk_transactions (getBlock 1700000001000 (1::nat)
      (fst (tick 0 (\<lambda>i. (1700000000000, 1700000000000)) (new_MockProvider 138))))
      = [mock_hash 1700000000000]
   \<and> blk_number (getBlock 1700000006000 (1::nat)
      (fst (tick 0 (\<lambda>i. (1700000005000, 1700000005000))
        (fst (tick 0 (\<lambda>i. (1700000000000, 1700000000000)) (new_MockProvider 138)))))) = 2
   \<and> blk_transactions (getBlock 1700000006000 (1::nat)
      (fst (tick 0 (\<lambda>i. (1700000005000, 1700000005000))
        (fst (tick 0 (\<lambda>i. (1700000000000, 1700000000000)) (new_MockProvider 138))))))
      = [mock_hash 1700000000000, mock_hash 1700000005000]"
proof -
  have ne: "mock_hash 1700000005000 \<noteq> mock_hash 1700000000000"
    by (simp only: mock_hash_1700000000000 mock_hash_1700000005000) simp
  show ?thesis
    by (rule two_blocks_getBlock [OF ne])
qed

section \<open>RelayManager: retries and repeated relays\<close>





lemma relayTransaction_skipped_step:
  assumes "relay_attempt env h (m\<lparr>metrics_transactions := metrics_transactions m + 1\<rparr>) = (Skipped, m')"
  shows "relayTransaction env h m = m'"
  using assms by (subst relayTransaction.simps) simp























section \<open>RelayManager: connection verification\<close>

lemma wfc_poll_result:
  "fst (wfc_poll nw i b c e) = (b \<noteq> Throws \<and> verifyChainId c e)"
  by (simp add: wfc_poll_def split: rpc_reply.splits)

lemma wfc_poll_events:
  "set (snd (wfc_poll nw i b c e)) \<subseteq>
     {Rpc nw ''eth_blockNumber'' i, Rpc nw ''eth_chainId'' i, Verified nw i}"
  "Verified nw' i' \<in> set (snd (wfc_poll nw i b c e)) \<Longrightarrow> fst (wfc_poll nw i b c e)"
  by (auto simp: wfc_poll_def split: rpc_reply.splits if_splits)

lemma wfc_attempt_source:
  "fst (fst (wfc_attempt env i sv tv m)) = (sv \<or> source_ok env m i)"
  by (auto simp: wfc_attempt_def source_ok_def Let_def wfc_poll_def
           split: prod.splits rpc_reply.splits if_splits bool.splits)


lemma wfc_attempt_target:
  "snd (fst (wfc_attempt env i sv tv m)) = (tv \<or> target_ok env m i)"
  by (auto simp: wfc_attempt_def target_ok_def Let_def wfc_poll_def
           split: prod.splits rpc_reply.splits if_splits bool.splits)

lemma wfc_attempt_events:
  "e \<in> set (snd (snd (wfc_attempt env i sv tv m))) \<Longrightarrow>
     (\<exists>nw meth. e = Rpc nw meth i) \<or> (\<exists>nw. e = Verified nw i)"
  "Rpc Source meth j \<in> set (snd (snd (wfc_attempt env i sv tv m))) \<Longrightarrow> \<not> sv"
  "Rpc Target meth j \<in> set (snd (snd (wfc_attempt env i sv tv m))) \<Longrightarrow> \<not> tv"
  "Verified Source j \<in> set (snd (snd (wfc_attempt env i sv tv m))) \<Longrightarrow>
     fst (fst (wfc_attempt env i sv tv m))"
  "Verified Target j \<in> set (snd (snd (wfc_attempt env i sv tv m))) \<Longrightarrow>
     snd (fst (wfc_attempt env i sv tv m))"
  by (auto simp: wfc_attempt_def Let_def wfc_poll_def
           split: prod.splits rpc_reply.splits if_splits bool.splits)

lemma wfc_loop_exit:
  assumes "\<not> (elapsed env (a + 1) < timeout \<and> a < wfc_maxAttempts)"
  shows "wfc_loop env timeout a sv tv m = (Inl (ConnectionVerificationFailed a sv tv), m, [])"
  using assms by (subst wfc_loop.simps) auto

lemma wfc_loop_success:
  assumes "elapsed env (a + 1) < timeout \<and> a < wfc_maxAttempts"
    and "fst (fst (wfc_attempt env (a + 1) sv tv m)) \<and> snd (fst (wfc_attempt env (a + 1) sv tv m))"
  shows "wfc_loop env timeout a sv tv m =
           (Inr True, fst (snd (wfc_attempt env (a + 1) sv tv m)),
            snd (snd (wfc_attempt env (a + 1) sv tv m)))"
  using assms by (subst wfc_loop.simps) (auto split: prod.splits)

lemma wfc_loop_again:
  assumes "elapsed env (a + 1) < timeout \<and> a < wfc_maxAttempts"
    and "\<not> (fst (fst (wfc_attempt env (a + 1) sv tv m)) \<and> snd (fst (wfc_attempt env (a + 1) sv tv m)))"
  shows "wfc_loop env timeout a sv tv m =
           prepend (snd (snd (wfc_attempt env (a + 1) sv tv m)) @ [Sleep wfc_retryDelay])
             (wfc_loop env timeout (a + 1)
                (fst (fst (wfc_attempt env (a + 1) sv tv m)))
                (snd (fst (wfc_attempt env (a + 1) sv tv m)))
                (fst (snd (wfc_attempt env (a + 1) sv tv m))))"
  using assms by (subst wfc_loop.simps) (auto split: prod.splits)

lemma prepend_simps:
  "fst (prepend ev r) = fst r" "fst (snd (prepend ev r)) = fst (snd r)"
  "snd (snd (prepend ev r)) = ev @ snd (snd r)"
  by (simp_all add: prepend_def)

lemma wfc_loop_events:
  "(\<forall>nw meth j. Rpc nw meth j \<in> set (snd (snd (wfc_loop env timeout a sv tv m))) \<longrightarrow>
       a < j \<and> \<not> (case nw of Source \<Rightarrow> sv | Target \<Rightarrow> tv))
   \<and> (\<forall>nw j. Verified nw j \<in> set (snd (snd (wfc_loop env timeout a sv tv m))) \<longrightarrow> a < j)
   \<and> (\<forall>nw i meth j. Verified nw i \<in> set (snd (snd (wfc_loop env timeout a sv tv m))) \<longrightarrow>
         Rpc nw meth j \<in> set (snd (snd (wfc_loop env timeout a sv tv m))) \<longrightarrow> j \<le> i)"
proof (induction "wfc_maxAttempts - a" arbitrary: a sv tv m)
  case 0
  then have "\<not> (elapsed env (a + 1) < timeout \<and> a < wfc_maxAttempts)" by simp
  then have "snd (snd (wfc_loop env timeout a sv tv m)) = []"
    by (simp add: wfc_loop_exit)
  then show ?case by simp
next
  case (Suc d)
  let ?r = "wfc_attempt env (a + 1) sv tv m"
  let ?sv = "fst (fst ?r)" and ?tv = "snd (fst ?r)" and ?m = "fst (snd ?r)" and ?ev = "snd (snd ?r)"
  let ?rest = "snd (snd (wfc_loop env timeout (a + 1) ?sv ?tv ?m))"
  have att_idx: "a < j" if "Rpc nw meth j \<in> set ?ev" for nw meth j
    using wfc_attempt_events(1) [OF that] by auto
  have att_idx': "j = a + 1" if "Rpc nw meth j \<in> set ?ev" for nw meth j
    using wfc_attempt_events(1) [OF that] by auto
  have att_vidx: "j = a + 1" if "Verified nw j \<in> set ?ev" for nw j
    using wfc_attempt_events(1) [OF that] by auto
  have att_flag: "\<not> (case nw of Source \<Rightarrow> sv | Target \<Rightarrow> tv)" if "Rpc nw meth j \<in> set ?ev" for nw meth j
    using that wfc_attempt_events(2,3) [of _ _ env "a + 1" sv tv m] by (cases nw) auto
  have att_ver: "(case nw of Source \<Rightarrow> ?sv | Target \<Rightarrow> ?tv)" if "Verified nw j \<in> set ?ev" for nw j
    using that wfc_attempt_events(4,5) [of _ env "a + 1" sv tv m] by (cases nw) auto
  have d: "d = wfc_maxAttempts - (a + 1)" using Suc.hyps(2) by simp
  note ih = Suc.hyps(1) [OF d, of ?sv ?tv ?m]
  have ih_idx: "a + 1 < j" and ih_flag: "\<not> (case nw of Source \<Rightarrow> ?sv | Target \<Rightarrow> ?tv)"
    if "Rpc nw meth j \<in> set ?rest" for nw meth j
    using ih that by blast+
  have ih_vidx: "a + 1 < j" if "Verified nw j \<in> set ?rest" for nw j
    using ih that by blast
  have ih_ord: "j \<le> i" if "Verified nw i \<in> set ?rest" "Rpc nw meth j \<in> set ?rest" for nw i meth j
    using ih that by blast
  consider (exit) "\<not> (elapsed env (a + 1) < timeout \<and> a < wfc_maxAttempts)"
    | (success) "elapsed env (a + 1) < timeout \<and> a < wfc_maxAttempts" "?sv \<and> ?tv"
    | (again) "elapsed env (a + 1) < timeout \<and> a < wfc_maxAttempts" "\<not> (?sv \<and> ?tv)"
    by blast
  then show ?case
  proof cases
    case exit
    then have "snd (snd (wfc_loop env timeout a sv tv m)) = []"
      by (simp add: wfc_loop_exit)
    then show ?thesis by simp
  next
    case success
    then have ev: "snd (snd (wfc_loop env timeout a sv tv m)) = ?ev"
      by (simp add: wfc_loop_success)
    show ?thesis
      unfolding ev using att_idx att_flag att_idx' att_vidx by fastforce
  next
    case again
    then have ev: "set (snd (snd (wfc_loop env timeout a sv tv m)))
                     = set ?ev \<union> {Sleep wfc_retryDelay} \<union> set ?rest"
      by (simp add: wfc_loop_again prepend_simps)
    have mono_s: "sv \<Longrightarrow> ?sv" and mono_t: "tv \<Longrightarrow> ?tv"
      by (simp_all add: wfc_attempt_source wfc_attempt_target)
    have p1: "a < j \<and> \<not> (case nw of Source \<Rightarrow> sv | Target \<Rightarrow> tv)"
      if "Rpc nw meth j \<in> set (snd (snd (wfc_loop env timeout a sv tv m)))" for nw meth j
    proof -
      from that ev have "Rpc nw meth j \<in> set ?ev \<or> Rpc nw meth j \<in> set ?rest" by auto
      then show ?thesis
      proof
        assume "Rpc nw meth j \<in> set ?ev"
        then show ?thesis using att_idx att_flag by blast
      next
        assume r: "Rpc nw meth j \<in> set ?rest"
        from ih_idx [OF r] have "a < j" by simp
        moreover from ih_flag [OF r] mono_s mono_t
        have "\<not> (case nw of Source \<Rightarrow> sv | Target \<Rightarrow> tv)" by (cases nw) auto
        ultimately show ?thesis by simp
      qed
    qed
    have p2: "a < j" if "Verified nw j \<in> set (snd (snd (wfc_loop env timeout a sv tv m)))" for nw j
    proof -
      from that ev have "Verified nw j \<in> set ?ev \<or> Verified nw j \<in> set ?rest" by auto
      then show ?thesis using att_vidx ih_vidx by fastforce
    qed
    have p3: "j \<le> i"
      if v: "Verified nw i \<in> set (snd (snd (wfc_loop env timeout a sv tv m)))"
      and r: "Rpc nw meth j \<in> set (snd (snd (wfc_loop env timeout a sv tv m)))" for nw i meth j
    proof -
      from v ev have v': "Verified nw i \<in> set ?ev \<or> Verified nw i \<in> set ?rest" by auto
      from r ev have r': "Rpc nw meth j \<in> set ?ev \<or> Rpc nw meth j \<in> set ?rest" by auto
      from v' show ?thesis
      proof
        assume va: "Verified nw i \<in> set ?ev"
        from r' show ?thesis
        proof
          assume "Rpc nw meth j \<in> set ?ev"
          with va att_idx' att_vidx show ?thesis by fastforce
        next
          assume "Rpc nw meth j \<in> set ?rest"
          with ih_flag att_ver [OF va] show ?thesis by blast
        qed
      next
        assume vr: "Verified nw i \<in> set ?rest"
        from r' show ?thesis
        proof
          assume "Rpc nw meth j \<in> set ?ev"
          with att_idx' ih_vidx [OF vr] show ?thesis by fastforce
        next
          assume "Rpc nw meth j \<in> set ?rest"
          with vr ih_ord show ?thesis by blast
        qed
      qed
    qed
    from p1 p2 p3 show ?thesis by blast
  qed
qed




text \<open>
  C9. In a run of \<^verbatim>\<open>waitForConnections\<close>, every RPC sent to an endpoint is sent
  in an attempt no later than the one in which that endpoint is marked verified:
  once verified, an endpoint receives no further liveness or chain id call, however
  many more attempts the other endpoint needs.
\<close>

theorem C9_verified_endpoint_is_not_polled_again:
  assumes "Verified nw i \<in> set (snd (snd (waitForConnections env timeout m)))"
    and "Rpc nw meth j \<in> set (snd (snd (waitForConnections env timeout m)))"
  shows "j \<le> i"
proof -
  have ev: "snd (snd (waitForConnections env timeout m))
              = Sleep 3000 # snd (snd (wfc_loop env timeout 0 False False m))"
    by (simp add: waitForConnections_def prepend_simps)
  from assms have "Verified nw i \<in> set (snd (snd (wfc_loop env timeout 0 False False m)))"
    and "Rpc nw meth j \<in> set (snd (snd (wfc_loop env timeout 0 False False m)))"
    by (simp_all add: ev)
  with wfc_loop_events [of env timeout 0 False False m] show ?thesis by blast
qed

theorem C9_verified_endpoint_witness:
  "snd (snd (waitForConnections (example_wfc_env (snd (connect (new_MockWebSocketProvider 138))) 3 1)
          30000 (new_RelayManager (snd (connect (new_MockWebSocketProvider 138))))))
     = [Sleep 3000, Rpc Source ''eth_blockNumber'' 1, Rpc Source ''eth_chainId'' 1, Verified Source 1,
        Rpc Target ''eth_blockNumber'' 1, Sleep 2000, Rpc Target ''eth_blockNumber'' 2, Sleep 2000,
        Rpc Target ''eth_blockNumber'' 3, Rpc Target ''eth_chainId'' 3, Verified Target 3]
   \<and> Verified Source 1 \<in> set (snd (snd (waitForConnections
          (example_wfc_env (snd (connect (new_MockWebSocketProvider 138))) 3 1)
          30000 (new_RelayManager (snd (connect (new_MockWebSocketProvider 138)))))))
   \<and> Rpc Source ''eth_chainId'' 1 \<in> set (snd (snd (waitForConnections
          (example_wfc_env (snd (connect (new_MockWebSocketProvider 138))) 3 1)
          30000 (new_RelayManager (snd (connect (new_MockWebSocketProvider 138)))))))
   \<and> (1::nat) \<le> 1"
proof -
  let ?ev = "snd (snd (waitForConnections
          (example_wfc_env (snd (connect (new_MockWebSocketProvider 138))) 3 1)
          30000 (new_RelayManager (snd (connect (new_MockWebSocketProvider 138))))))"
  have ev: "?ev = [Sleep 3000, Rpc Source ''eth_blockNumber'' 1, Rpc Source ''eth_chainId'' 1,
        Verified Source 1,
        Rpc Target ''eth_blockNumber'' 1, Sleep 2000, Rpc Target ''eth_blockNumber'' 2, Sleep 2000,
        Rpc Target ''eth_blockNumber'' 3, Rpc Target ''eth_chainId'' 3, Verified Target 3]"
    by code_simp
  have v: "Verified Source 1 \<in> set ?ev" by (simp only: ev) simp
  have r: "Rpc Source ''eth_chainId'' 1 \<in> set ?ev" by (simp only: ev) simp
  from C9_verified_endpoint_is_not_polled_again [OF v r] ev v r
  show ?thesis by blast
qed

section \<open>Disconnects and reconnection\<close>

lemma handleDisconnect_action:
  "fst (handleDisconnect m) = ConnectNow"
  "metrics_disconnections (snd (snd (handleDisconnect m))) = metrics_disconnections m + 1"
  by (auto simp: handleDisconnect_def Let_def handleConnect_def split: option.splits prod.splits)

lemma source_disconnects_action:
  "fst (source_disconnects m) = ConnectNow"
  "metrics_disconnections (snd (snd (source_disconnects m))) = metrics_disconnections m + 1"
  by (simp_all add: source_disconnects_def handleDisconnect_action)

lemma disconnects_actions:
  "fst (disconnects n m) = replicate n ConnectNow
   \<and> metrics_disconnections (snd (disconnects n m)) = metrics_disconnections m + n"
proof (induction n arbitrary: m)
  case 0
  show ?case by simp
next
  case (Suc n)
  obtain a e m' where sd: "source_disconnects m = (a, e, m')"
    by (cases "source_disconnects m")
  obtain as m'' where ds: "disconnects n m' = (as, m'')"
    by (cases "disconnects n m'")
  from sd source_disconnects_action [of m]
  have a: "a = ConnectNow" and c: "metrics_disconnections m' = metrics_disconnections m + 1"
    by simp_all
  from Suc.IH [of m'] ds c
  have "as = replicate n ConnectNow" and "metrics_disconnections m'' = metrics_disconnections m + 1 + n"
    by simp_all
  with a sd ds show ?case by simp
qed

lemma handleReconnection_under_ceiling:
  assumes "reconnectAttempts mon < maxReconnectAttempts mon"
  shows "handleReconnection ok mon =
           (ConnectAfter (2 * reconnectDelay mon), None,
            mon\<lparr>reconnectAttempts := reconnectAttempts mon + 1,
                 reconnectDelay := 2 * reconnectDelay mon\<rparr>)"
  using assms by (simp add: handleReconnection_def Let_def mult.commute)

lemma handleReconnection_at_ceiling:
  assumes "maxReconnectAttempts mon \<le> reconnectAttempts mon"
  shows "fst (handleReconnection ok mon) = Stop"
    and "ok \<Longrightarrow> \<not> isRunning (snd (snd (handleReconnection ok mon)))"
    and "reconnectAttempts (snd (snd (handleReconnection ok mon))) = reconnectAttempts mon"
    and "maxReconnectAttempts (snd (snd (handleReconnection ok mon))) = maxReconnectAttempts mon"
  using assms by (auto simp: handleReconnection_def monitor_stop_def split: prod.splits)

lemma handleReconnection_at_ceiling_eq:
  assumes "maxReconnectAttempts mon \<le> reconnectAttempts mon"
  shows "handleReconnection ok mon = (Stop, fst (monitor_stop ok mon), snd (monitor_stop ok mon))"
  using assms by (simp add: handleReconnection_def split: prod.splits)

lemma closes_six:
  assumes "reconnectAttempts mon = 0" and "maxReconnectAttempts mon = 5"
  shows "fst (closes 6 ok mon) =
           [ConnectAfter (2 * reconnectDelay mon), ConnectAfter (2 * (2 * reconnectDelay mon)),
            ConnectAfter (4 * (2 * reconnectDelay mon)), ConnectAfter (8 * (2 * reconnectDelay mon)),
            ConnectAfter (16 * (2 * reconnectDelay mon)), Stop]"
proof -
  have six: "(6::nat) = Suc (Suc (Suc (Suc (Suc (Suc 0)))))"
    by simp
  show ?thesis
    unfolding six
    by (simp add: handleReconnection_under_ceiling handleReconnection_at_ceiling_eq assms case_prod_beta)
qed
text \<open>
  C7, as the code has it. On a disconnect of the source the relay manager adds
  exactly 1 to its disconnection counter and calls \<^verbatim>\<open>connect\<close> on the provider at
  once: it arms no timer, and it does so for any number of disconnects in a row.
  Backoff is in the transaction monitor: from a monitor with no reconnection
  attempt counted and its ceiling of 5, six closes in a row arm five reconnection
  timers, each delay twice the one before, and the sixth close stops the monitor
  instead of arming a timer.
\<close>

theorem C7_disconnect_and_reconnection:
  "fst (handleDisconnect m) = ConnectNow
   \<and> metrics_disconnections (snd (snd (handleDisconnect m))) = metrics_disconnections m + 1
   \<and> fst (disconnects n m) = replicate n ConnectNow
   \<and> (reconnectAttempts mon = 0 \<and> maxReconnectAttempts mon = 5 \<longrightarrow>
        (\<exists>d. fst (closes 6 ok mon) =
                [ConnectAfter d, ConnectAfter (2 * d), ConnectAfter (4 * d), ConnectAfter (8 * d),
                 ConnectAfter (16 * d), Stop]))
   \<and> (maxReconnectAttempts mon \<le> reconnectAttempts mon \<and> ok \<longrightarrow>
        fst (handleReconnection ok mon) = Stop
        \<and> \<not> isRunning (snd (snd (handleReconnection ok mon))))"
proof -
  have "\<exists>d. fst (closes 6 ok mon) =
                [ConnectAfter d, ConnectAfter (2 * d), ConnectAfter (4 * d), ConnectAfter (8 * d),
                 ConnectAfter (16 * d), Stop]"
    if "reconnectAttempts mon = 0 \<and> maxReconnectAttempts mon = 5"
    using that closes_six [of mon ok] by (intro exI [of _ "2 * reconnectDelay mon"]) simp
  moreover have "fst (handleReconnection ok mon) = Stop
        \<and> \<not> isRunning (snd (snd (handleReconnection ok mon)))"
    if "maxReconnectAttempts mon \<le> reconnectAttempts mon \<and> ok"
    using that handleReconnection_at_ceiling(1,2) [of mon ok] by simp
  ultimately show ?thesis
    using handleDisconnect_action [of m] disconnects_actions [of n m] by blast
qed

theorem C7_disconnect_and_reconnection_witness:
  "reconnectAttempts (new_TransactionMonitor\<lparr>isRunning := True\<rparr>) = 0
   \<and> maxReconnectAttempts (new_TransactionMonitor\<lparr>isRunning := True\<rparr>) = 5
   \<and> (\<exists>d. fst (closes 6 True (new_TransactionMonitor\<lparr>isRunning := True\<rparr>)) =
                [ConnectAfter d, ConnectAfter (2 * d), ConnectAfter (4 * d), ConnectAfter (8 * d),
                 ConnectAfter (16 * d), Stop])
   \<and> fst (closes 6 True (new_TransactionMonitor\<lparr>isRunning := True\<rparr>)) =
        [ConnectAfter 2000, ConnectAfter 4000, ConnectAfter 8000, ConnectAfter 16000,
         ConnectAfter 32000, Stop]
   \<and> maxReconnectAttempts (new_TransactionMonitor\<lparr>isRunning := True, reconnectAttempts := 5\<rparr>)
       \<le> reconnectAttempts (new_TransactionMonitor\<lparr>isRunning := True, reconnectAttempts := 5\<rparr>)
   \<and> fst (handleReconnection True (new_TransactionMonitor\<lparr>isRunning := True, reconnectAttempts := 5\<rparr>))
       = Stop
   \<and> \<not> isRunning (snd (snd (handleReconnection True
          (new_TransactionMonitor\<lparr>isRunning := True, reconnectAttempts := 5\<rparr>))))"
proof -
  let ?mon = "new_TransactionMonitor\<lparr>isRunning := True\<rparr>"
  let ?mon5 = "new_TransactionMonitor\<lparr>isRunning := True, reconnectAttempts := 5\<rparr>"
  have h: "reconnectAttempts ?mon = 0 \<and> maxReconnectAttempts ?mon = 5"
    by (simp add: new_TransactionMonitor_def)
  have h5: "maxReconnectAttempts ?mon5 \<le> reconnectAttempts ?mon5 \<and> True"
    by (simp add: new_TransactionMonitor_def)
  have ev: "fst (closes 6 True ?mon) =
        [ConnectAfter 2000, ConnectAfter 4000, ConnectAfter 8000, ConnectAfter 16000,
         ConnectAfter 32000, Stop]"
    by code_simp
  from C7_disconnect_and_reconnection [of "new_RelayManager (new_MockWebSocketProvider 138)" 0 ?mon True] h
  have ex: "\<exists>d. fst (closes 6 True ?mon) =
                [ConnectAfter d, ConnectAfter (2 * d), ConnectAfter (4 * d), ConnectAfter (8 * d),
                 ConnectAfter (16 * d), Stop]"
    by blast
  from C7_disconnect_and_reconnection [of "new_RelayManager (new_MockWebSocketProvider 138)" 0 ?mon5 True] h5
  have st: "fst (handleReconnection True ?mon5) = Stop
            \<and> \<not> isRunning (snd (snd (handleReconnection True ?mon5)))"
    by blast
  from h h5 ev ex st show ?thesis by blast
qed

text \<open>
  C7 as stated fails: the source of a connected relay manager disconnects six times
  in a row. Every disconnect is answered by an immediate \<^verbatim>\<open>connect\<close>, with no
  delay at all and so no doubling, and after the sixth the manager has counted six
  disconnections and its provider is connected again: no ceiling has stopped it.
\<close>

theorem C7_immediate_reconnect_counterexample:
  "fst (disconnects 6 (new_RelayManager (snd (connect (new_MockWebSocketProvider 138)))))
     = [ConnectNow, ConnectNow, ConnectNow, ConnectNow, ConnectNow, ConnectNow]
   \<and> metrics_disconnections
       (snd (disconnects 6 (new_RelayManager (snd (connect (new_MockWebSocketProvider 138)))))) = 6
   \<and> map_option connected
       (provider (snd (disconnects 6 (new_RelayManager (snd (connect (new_MockWebSocketProvider 138)))))))
     = Some True"
  by code_simp

section \<open>MainnetRelay: the gas price maximum\<close>





lemma MainnetRelay_gas_price_within_maximum_submits:
  "fst (MainnetRelay_relayTransaction default_mainnet_config (example_mainnet_env 100000000000)
      example_request \<lparr>isInitialized = True, relay_transactions = []\<rparr>)
     = Inr (Some (mock_hash 7,
         \<lparr>i_status = 1, i_blockNumber = 100, i_timestamp = 1700000000000,
          i_blockscoutUrl = ''https://blockscout.defi-oracle.io/tx/'' @ mock_hash 7,
          i_quorumUrl = ''https://explorer.defi-oracle.io/tx/'' @ mock_hash 7,
          i_gasUsed = ''21000'', i_effectiveGasPrice = ''100000000000'',
          i_chainId = 138, i_networkId = 1\<rparr>))
   \<and> map_keys (relay_transactions (fst (snd (MainnetRelay_relayTransaction default_mainnet_config
        (example_mainnet_env 100000000000) example_request
        \<lparr>isInitialized = True, relay_transactions = []\<rparr>)))) = [mock_hash 7]"
  by code_simp

end
